theory Spec2Isabelle
  imports Complex_Main "HOL-Library.Sublist"
begin

section \<open>JavaScript values\<close>

text \<open>
  The value returned by the completion transport is typed \<^verbatim>\<open>any\<close> in
  \<^verbatim>\<open>src/inference.ts\<close>, so the model works on untyped JavaScript values: the JSON
  values and \<^verbatim>\<open>undefined\<close>. An object is the association list of its own
  properties (the first binding of a key is the property). A string is the list of its
  code units, one \<open>char\<close> each. Numbers are finite (\<^verbatim>\<open>NaN\<close> is outside the model).
\<close>

datatype jsval =
    JUndefined
  | JNull
  | JBool bool
  | JNum real
  | JStr string
  | JArr "jsval list"
  | JObj "(string \<times> jsval) list"

text \<open>A thrown value: an \<^verbatim>\<open>Error\<close> with its message, or the engine's \<^verbatim>\<open>TypeError\<close>.\<close>

datatype error = Error string | TypeError

text \<open>Truthiness, as tested by \<^verbatim>\<open>!x\<close>, \<^verbatim>\<open>x || y\<close>, \<^verbatim>\<open>x && y\<close> and \<^verbatim>\<open>if (x)\<close>.\<close>

fun js_truthy :: "jsval \<Rightarrow> bool" where
  "js_truthy JUndefined = False"
| "js_truthy JNull = False"
| "js_truthy (JBool b) = b"
| "js_truthy (JNum n) = (n \<noteq> 0)"
| "js_truthy (JStr s) = (s \<noteq> [])"
| "js_truthy (JArr xs) = True"
| "js_truthy (JObj ps) = True"

text \<open>\<^verbatim>\<open>a || b\<close>\<close>

definition js_or :: "jsval \<Rightarrow> jsval \<Rightarrow> jsval" where
  "js_or a b = (if js_truthy a then a else b)"

text \<open>\<^verbatim>\<open>typeof x\<close>\<close>

fun js_typeof :: "jsval \<Rightarrow> string" where
  "js_typeof JUndefined = ''undefined''"
| "js_typeof JNull = ''object''"
| "js_typeof (JBool b) = ''boolean''"
| "js_typeof (JNum n) = ''number''"
| "js_typeof (JStr s) = ''string''"
| "js_typeof (JArr xs) = ''object''"
| "js_typeof (JObj ps) = ''object''"

text \<open>
  \<^verbatim>\<open>k in x\<close> for a property name \<open>k\<close> that is neither an array index nor
  \<^verbatim>\<open>length\<close> nor inherited from a prototype (the code asks for \<^verbatim>\<open>'choices'\<close> only),
  on a value \<open>x\<close> of type object.
\<close>

fun js_in :: "string \<Rightarrow> jsval \<Rightarrow> bool" where
  "js_in k (JObj ps) = (map_of ps k \<noteq> None)"
| "js_in k v = False"

fun show_digit :: "nat \<Rightarrow> char" where
  "show_digit d = ''0123456789'' ! d"

text \<open>The decimal digits of a number, as a template literal prints it.\<close>

fun show_nat :: "nat \<Rightarrow> string" where
  "show_nat n = (if n < 10 then [show_digit n] else show_nat (n div 10) @ [show_digit (n mod 10)])"

text \<open>
  \<^verbatim>\<open>x.k\<close> on a value that is neither \<^verbatim>\<open>null\<close> nor \<^verbatim>\<open>undefined\<close>, for a property name
  that is not an array index (\<^verbatim>\<open>choices\<close>, \<^verbatim>\<open>message\<close>, \<^verbatim>\<open>content\<close>,
  \<^verbatim>\<open>tool_calls\<close>, \<^verbatim>\<open>length\<close>).
\<close>

fun js_prop :: "jsval \<Rightarrow> string \<Rightarrow> jsval" where
  "js_prop (JObj ps) k = (case map_of ps k of Some v \<Rightarrow> v | None \<Rightarrow> JUndefined)"
| "js_prop (JArr xs) k = (if k = ''length'' then JNum (real (length xs)) else JUndefined)"
| "js_prop (JStr s) k = (if k = ''length'' then JNum (real (length s)) else JUndefined)"
| "js_prop v k = JUndefined"

text \<open>\<^verbatim>\<open>x[i]\<close> on a value that is neither \<^verbatim>\<open>null\<close> nor \<^verbatim>\<open>undefined\<close>.\<close>

fun js_elem :: "jsval \<Rightarrow> nat \<Rightarrow> jsval" where
  "js_elem (JArr xs) i = (if i < length xs then xs ! i else JUndefined)"
| "js_elem (JStr s) i = (if i < length s then JStr [s ! i] else JUndefined)"
| "js_elem (JObj ps) i = (case map_of ps (show_nat i) of Some v \<Rightarrow> v | None \<Rightarrow> JUndefined)"
| "js_elem v i = JUndefined"

definition js_nullish :: "jsval \<Rightarrow> bool" where
  "js_nullish v = (v = JUndefined \<or> v = JNull)"

text \<open>\<^verbatim>\<open>x.k\<close> and \<^verbatim>\<open>x[i]\<close>: reading a property of \<^verbatim>\<open>null\<close> or \<^verbatim>\<open>undefined\<close> throws.\<close>

definition js_get :: "jsval \<Rightarrow> string \<Rightarrow> error + jsval" where
  "js_get v k = (if js_nullish v then Inl TypeError else Inr (js_prop v k))"

definition js_index :: "jsval \<Rightarrow> nat \<Rightarrow> error + jsval" where
  "js_index v i = (if js_nullish v then Inl TypeError else Inr (js_elem v i))"

text \<open>\<^verbatim>\<open>x?.k\<close>\<close>

definition js_opt_get :: "jsval \<Rightarrow> string \<Rightarrow> jsval" where
  "js_opt_get v k = (if js_nullish v then JUndefined else js_prop v k)"

section \<open>Data model of \<^verbatim>\<open>src/inference.ts\<close>\<close>

datatype role = System | User | Assistant | Tool

record ChatMessage =
  role :: role
  content :: jsval
  tool_calls :: "jsval option"
  tool_call_id :: "string option"

record ResponseFormat =
  rf_type :: string
  json_schema :: jsval

text \<open>
  Arrays of messages are objects with identity: they live in a store, and a variable
  holds the address of one. \<open>messages\<close> of a request is such an address.
\<close>

type_synonym addr = nat

record InferenceRequest =
  messages :: addr
  modelName :: string
  maxTokens :: real
  endpoint :: string
  token :: string
  temperature :: "real option"
  topP :: "real option"
  responseFormat :: "ResponseFormat option"
  customHeaders :: "(string \<times> string) list option"

text \<open>
  \<^verbatim>\<open>OpenAI.Chat.Completions.ChatCompletionCreateParams\<close>, with the message list as it is
  when the call is made.
\<close>

record ChatCompletionCreateParams =
  p_messages :: "ChatMessage list"
  max_tokens :: real
  model :: string
  p_temperature :: "real option"
  top_p :: "real option"
  extra_body :: "jsval option"
  response_format :: "ResponseFormat option"
  tools :: "jsval option"

text \<open>
  What the code calls and does not define. \<open>create env n\<close> is what the call of
  \<^verbatim>\<open>client.chat.completions.create\<close> made in pass \<open>n\<close> gives: a thrown error or a
  value (a run makes one call per pass, so a run of the endpoint is the sequence of its
  answers; the parameters of each call are logged in the world). \<^verbatim>\<open>JSON.parse\<close> gives
  the message of its \<^verbatim>\<open>SyntaxError\<close> or the value, \<^verbatim>\<open>JSON.stringify\<close> a string or
  \<^verbatim>\<open>undefined\<close> (\<open>None\<close>). \<open>mcp_tools\<close> is \<^verbatim>\<open>githubMcpClient.tools\<close>, and
  \<open>executeToolCalls env n\<close> is \<^verbatim>\<open>executeToolCalls\<close> of \<^verbatim>\<open>src/mcp.ts\<close> as called in
  pass \<open>n\<close>: a thrown error or the messages to append.
\<close>

record Env =
  create :: "nat \<Rightarrow> error + jsval"
  JSON_parse :: "string \<Rightarrow> string + jsval"
  JSON_stringify :: "jsval \<Rightarrow> string option"
  mcp_tools :: jsval
  executeToolCalls :: "nat \<Rightarrow> jsval \<Rightarrow> error + ChatMessage list"

text \<open>
  The store of message arrays, addressed by position, and the log of the calls made to
  the endpoint: the value of \<^verbatim>\<open>finalMessage\<close> when the call was made, and its parameters.
\<close>

record World =
  heap :: "ChatMessage list list"
  sent :: "(bool \<times> ChatCompletionCreateParams) list"

text \<open>\<^verbatim>\<open>messages.push(...ms)\<close> on the array at address \<open>a\<close>.\<close>

definition push :: "addr \<Rightarrow> ChatMessage list \<Rightarrow> World \<Rightarrow> World" where
  "push a ms w = w\<lparr>heap := (heap w)[a := heap w ! a @ ms]\<rparr>"

section \<open>\<^verbatim>\<open>chatCompletion\<close>\<close>

text \<open>The inner \<^verbatim>\<open>try\<close> of lines 224-234: a string answer is parsed.\<close>

definition decode :: "Env \<Rightarrow> string \<Rightarrow> jsval \<Rightarrow> error + jsval" where
  "decode env context response =
     (case response of
        JStr s \<Rightarrow>
          (case JSON_parse env s of
             Inl e_message \<Rightarrow>
               Inl (Error (context @ '': Chat completion response was a string and not valid JSON (''
                             @ e_message @ ''). Preview: '' @ take 400 s))
           | Inr v \<Rightarrow> Inr v)
      | _ \<Rightarrow> Inr response)"

text \<open>\<^verbatim>\<open>JSON.stringify(response)?.slice(0, 800)\<close>, as the template literal prints it.\<close>

definition shape_preview :: "Env \<Rightarrow> jsval \<Rightarrow> string" where
  "shape_preview env response =
     (case JSON_stringify env response of None \<Rightarrow> ''undefined'' | Some t \<Rightarrow> take 800 t)"

definition chatCompletion :: "Env \<Rightarrow> error + jsval \<Rightarrow> string \<Rightarrow> error + jsval" where
  "chatCompletion env created context =
     (case created of
        Inl err \<Rightarrow> Inl err
      | Inr response0 \<Rightarrow>
          (case decode env context response0 of
             Inl err \<Rightarrow> Inl err
           | Inr response \<Rightarrow>
               if \<not> js_truthy response \<or> js_typeof response \<noteq> ''object''
                  \<or> \<not> js_in ''choices'' response
               then Inl (Error (context @ '': Unexpected response shape (no choices). Preview: ''
                                  @ shape_preview env response))
               else Inr response))"

text \<open>\<^verbatim>\<open>response.choices[0]?.message\<close>\<close>

definition first_message :: "jsval \<Rightarrow> error + jsval" where
  "first_message response =
     (case js_get response ''choices'' of
        Inl err \<Rightarrow> Inl err
      | Inr choices \<Rightarrow>
          (case js_index choices 0 of
             Inl err \<Rightarrow> Inl err
           | Inr choice \<Rightarrow> Inr (js_opt_get choice ''message'')))"

section \<open>\<^verbatim>\<open>simpleInference\<close>\<close>

text \<open>
  The regular expression \<^verbatim>\<open>/^\s*<thought>(.*?)<\/thought>/\<close>. \<^verbatim>\<open>\s\<close> is the white
  space and the line terminators; \<^verbatim>\<open>.\<close> (no \<^verbatim>\<open>s\<close> flag) is every code unit but a
  line terminator.
\<close>

definition is_line_terminator :: "char \<Rightarrow> bool" where
  "is_line_terminator c = (c = CHR 0x0A \<or> c = CHR 0x0D)"

definition is_white_space :: "char \<Rightarrow> bool" where
  "is_white_space c =
     (c = CHR 0x09 \<or> c = CHR 0x0A \<or> c = CHR 0x0B \<or> c = CHR 0x0C \<or> c = CHR 0x0D
      \<or> c = CHR 0x20 \<or> c = CHR 0xA0)"

text \<open>
  \<^verbatim>\<open>(.*?)<\/thought>\<close>: the shortest run of \<^verbatim>\<open>.\<close> that the closing tag follows;
  the result is the run.
\<close>

fun lazy_dots :: "string \<Rightarrow> string option" where
  "lazy_dots [] = None"
| "lazy_dots (c # cs) =
     (if prefix ''</thought>'' (c # cs) then Some []
      else if is_line_terminator c then None
      else map_option ((#) c) (lazy_dots cs))"

text \<open>\<^verbatim>\<open>modelResponse.match(...)\<close>: \<^verbatim>\<open>match[0]\<close> and \<^verbatim>\<open>match[1]\<close>, or no match.\<close>

definition thought_match :: "string \<Rightarrow> (string \<times> string) option" where
  "thought_match s =
     (let ws = takeWhile is_white_space s; r = dropWhile is_white_space s
      in if prefix ''<thought>'' r
         then (case lazy_dots (drop 9 r) of
                 None \<Rightarrow> None
               | Some t \<Rightarrow> Some (ws @ ''<thought>'' @ t @ ''</thought>'', t))
         else None)"

definition thinking_config :: jsval where
  "thinking_config =
     JObj [(''google'', JObj [(''thinking_config'',
        JObj [(''include_thoughts'', JBool True), (''thinking_level'', JStr ''high'')])])]"

definition simple_params :: "InferenceRequest \<Rightarrow> ChatMessage list \<Rightarrow> ChatCompletionCreateParams" where
  "simple_params request ms =
     \<lparr>p_messages = ms, max_tokens = maxTokens request, model = modelName request,
      p_temperature = temperature request, top_p = topP request,
      extra_body = (if prefix ''gemini-3'' (modelName request) then Some thinking_config else None),
      response_format = responseFormat request, tools = None\<rparr>"

text \<open>Lines 91-110: from the validated response to the returned value.\<close>

definition simple_result :: "jsval \<Rightarrow> error + jsval" where
  "simple_result response =
     (case first_message response of
        Inl err \<Rightarrow> Inl err
      | Inr message \<Rightarrow>
          (let modelResponse = js_opt_get message ''content''
           in if js_truthy modelResponse
              then (case modelResponse of
                      JStr s \<Rightarrow>
                        (case thought_match s of
                           Some (m0, m1) \<Rightarrow> Inr (js_or (JStr (drop (length m0) s)) JNull)
                         | None \<Rightarrow> Inr (js_or (JStr s) JNull))
                    | _ \<Rightarrow> Inl TypeError)
              else Inr (js_or modelResponse JNull)))"

definition simpleInference :: "Env \<Rightarrow> InferenceRequest \<Rightarrow> World \<Rightarrow> (error + jsval) \<times> World" where
  "simpleInference env request w =
     (let chatCompletionRequest = simple_params request (heap w ! messages request);
          w1 = w\<lparr>sent := sent w @ [(False, chatCompletionRequest)]\<rparr>
      in case chatCompletion env (create env 1) ''simpleInference'' of
           Inl err \<Rightarrow> (Inl err, w1)
         | Inr response \<Rightarrow> (simple_result response, w1))"

section \<open>\<^verbatim>\<open>mcpInference\<close>\<close>

definition maxIterations :: nat where
  "maxIterations = 5"

datatype outcome = Return jsval | Continue | Throw error

definition loop_params ::
  "Env \<Rightarrow> InferenceRequest \<Rightarrow> ChatMessage list \<Rightarrow> bool \<Rightarrow> ChatCompletionCreateParams" where
  "loop_params env request ms finalMessage =
     (let chatCompletionRequest =
            \<lparr>p_messages = ms, max_tokens = maxTokens request, model = modelName request,
             p_temperature = temperature request, top_p = topP request,
             extra_body = None, response_format = None, tools = None\<rparr>
      in if finalMessage \<and> responseFormat request \<noteq> None
         then chatCompletionRequest\<lparr>response_format := responseFormat request\<rparr>
         else chatCompletionRequest\<lparr>tools := Some (mcp_tools env)\<rparr>)"

definition assistant_message :: "jsval \<Rightarrow> jsval \<Rightarrow> ChatMessage" where
  "assistant_message modelResponse toolCalls =
     \<lparr>role = Assistant, content = js_or modelResponse (JStr ''''),
      tool_calls = (if js_truthy toolCalls then Some toolCalls else None),
      tool_call_id = None\<rparr>"

definition reformat_message :: "ResponseFormat \<Rightarrow> ChatMessage" where
  "reformat_message rf =
     \<lparr>role = User,
      content = JStr (''Please provide your response in the exact '' @ rf_type rf
                       @ '' format specified.''),
      tool_calls = None, tool_call_id = None\<rparr>"

text \<open>\<^verbatim>\<open>!toolCalls || toolCalls.length === 0\<close>\<close>

definition no_tool_calls :: "jsval \<Rightarrow> bool" where
  "no_tool_calls toolCalls = (\<not> js_truthy toolCalls \<or> js_prop toolCalls ''length'' = JNum 0)"

text \<open>
  Lines 158-162: the validated response of pass \<open>iterationCount\<close>, and from it
  \<^verbatim>\<open>modelResponse\<close> and \<^verbatim>\<open>toolCalls\<close>.
\<close>

definition pass_response :: "Env \<Rightarrow> nat \<Rightarrow> error + jsval \<times> jsval" where
  "pass_response env iterationCount =
     (case chatCompletion env (create env iterationCount)
             (''mcpInference iteration '' @ show_nat iterationCount) of
        Inl err \<Rightarrow> Inl err
      | Inr response \<Rightarrow>
          (case first_message response of
             Inl err \<Rightarrow> Inl err
           | Inr assistantMessage \<Rightarrow>
               Inr (js_opt_get assistantMessage ''content'',
                    js_opt_get assistantMessage ''tool_calls'')))"

text \<open>
  The body of the \<^verbatim>\<open>while\<close> loop, lines 139-195, after \<^verbatim>\<open>iterationCount++\<close>:
  how the pass ends, the new value of \<^verbatim>\<open>finalMessage\<close>, and the new world.
\<close>

definition pass ::
  "Env \<Rightarrow> InferenceRequest \<Rightarrow> addr \<Rightarrow> nat \<Rightarrow> bool \<Rightarrow> World \<Rightarrow> outcome \<times> bool \<times> World" where
  "pass env request a iterationCount finalMessage w =
     (let chatCompletionRequest = loop_params env request (heap w ! a) finalMessage;
          w1 = w\<lparr>sent := sent w @ [(finalMessage, chatCompletionRequest)]\<rparr>
      in case pass_response env iterationCount of
           Inl err \<Rightarrow> (Throw err, finalMessage, w1)
         | Inr (modelResponse, toolCalls) \<Rightarrow>
             (let w2 = push a [assistant_message modelResponse toolCalls] w1
              in if no_tool_calls toolCalls
                 then (case responseFormat request of
                         Some rf \<Rightarrow>
                           if \<not> finalMessage
                           then (Continue, True, push a [reformat_message rf] w2)
                           else (Return (js_or modelResponse JNull), finalMessage, w2)
                       | None \<Rightarrow> (Return (js_or modelResponse JNull), finalMessage, w2))
                 else (case executeToolCalls env iterationCount toolCalls of
                         Inl err \<Rightarrow> (Throw err, finalMessage, w2)
                       | Inr toolResults \<Rightarrow> (Continue, finalMessage, push a toolResults w2))))"

text \<open>Lines 201-206: the content of the last assistant message, or \<^verbatim>\<open>null\<close>.\<close>

definition last_assistant_content :: "ChatMessage list \<Rightarrow> jsval" where
  "last_assistant_content ms =
     (case find (\<lambda>msg. role msg = Assistant) (rev ms) of
        None \<Rightarrow> JNull
      | Some lastAssistantMessage \<Rightarrow> js_or (content lastAssistantMessage) JNull)"

function mcpLoop ::
  "Env \<Rightarrow> InferenceRequest \<Rightarrow> addr \<Rightarrow> nat \<Rightarrow> bool \<Rightarrow> World \<Rightarrow> (error + jsval) \<times> World" where
  "mcpLoop env request a iterationCount finalMessage w =
     (if iterationCount < maxIterations
      then (case pass env request a (iterationCount + 1) finalMessage w of
              (Throw err, fm, w') \<Rightarrow> (Inl err, w')
            | (Return v, fm, w') \<Rightarrow> (Inr v, w')
            | (Continue, fm, w') \<Rightarrow> mcpLoop env request a (iterationCount + 1) fm w')
      else (Inr (last_assistant_content (heap w ! a)), w))"
  by pat_completeness auto
termination
  by (relation "measure (\<lambda>(env, request, a, iterationCount, finalMessage, w). maxIterations - iterationCount)")
     auto

text \<open>
  \<^verbatim>\<open>const messages = [...request.messages]\<close> allocates a new array holding the elements
  of the request's; the loop starts with \<^verbatim>\<open>iterationCount = 0\<close> and
  \<^verbatim>\<open>finalMessage = false\<close>.
\<close>

definition mcpInference :: "Env \<Rightarrow> InferenceRequest \<Rightarrow> World \<Rightarrow> (error + jsval) \<times> World" where
  "mcpInference env request w =
     mcpLoop env request (length (heap w)) 0 False
       (w\<lparr>heap := heap w @ [heap w ! messages request]\<rparr>)"

section \<open>The specification's words\<close>

text \<open>
  "A well-formed structured response containing a non-empty \<^verbatim>\<open>choices\<close> list", and
  the values the specification says the caller accepts: such a response, or a string
  that parses into one.
\<close>

definition well_formed_nonempty :: "jsval \<Rightarrow> bool" where
  "well_formed_nonempty v =
     (case v of
        JObj ps \<Rightarrow> (case map_of ps ''choices'' of Some (JArr cs) \<Rightarrow> cs \<noteq> [] | _ \<Rightarrow> False)
      | _ \<Rightarrow> False)"

definition spec_accepts :: "Env \<Rightarrow> jsval \<Rightarrow> bool" where
  "spec_accepts env v =
     (well_formed_nonempty v \<or>
      (case v of
         JStr s \<Rightarrow> (case JSON_parse env s of Inr u \<Rightarrow> well_formed_nonempty u | Inl m \<Rightarrow> False)
       | _ \<Rightarrow> False))"

text \<open>
  What one logged call must satisfy for tools and response format to exclude each other:
  tools exactly off the finalizing pass, the declared format exactly on it.
\<close>

definition exclusive ::
  "Env \<Rightarrow> InferenceRequest \<Rightarrow> bool \<times> ChatCompletionCreateParams \<Rightarrow> bool" where
  "exclusive env request e =
     (tools (snd e) = (if fst e then None else Some (mcp_tools env)) \<and>
      response_format (snd e) = (if fst e then responseFormat request else None) \<and>
      (fst e \<longrightarrow> responseFormat request \<noteq> None))"

section \<open>Example runs\<close>

text \<open>
  Concrete endpoints, requests and stores, on which the theorems below are instantiated.
  \<open>completion c tc\<close> is an answer with one choice, whose message has content \<open>c\<close> and
  tool calls \<open>tc\<close>; \<open>scripted answers\<close> is an endpoint whose \<open>n\<close>-th answer is
  \<open>answers n\<close>, with a tool executor that returns one tool message.
\<close>

definition completion :: "jsval \<Rightarrow> jsval \<Rightarrow> jsval" where
  "completion c tc =
     JObj [(''choices'', JArr [JObj [(''message'', JObj [(''content'', c), (''tool_calls'', tc)])]])]"

definition example_call :: jsval where
  "example_call =
     JObj [(''id'', JStr ''a''), (''type'', JStr ''function''),
           (''function'', JObj [(''name'', JStr ''get_issue''), (''arguments'', JStr ''{}'')])]"

definition example_result :: ChatMessage where
  "example_result =
     \<lparr>role = Tool, content = JStr ''ok'', tool_calls = None, tool_call_id = Some ''a''\<rparr>"

definition choices_text :: string where
  "choices_text = ''{'' @ [CHR 0x22] @ ''choices'' @ [CHR 0x22] @ '':[]}''"

definition example_parse :: "string \<Rightarrow> string + jsval" where
  "example_parse s =
     (if s = choices_text then Inr (JObj [(''choices'', JArr [])])
      else Inl ''Unexpected token'')"

definition example_stringify :: "jsval \<Rightarrow> string option" where
  "example_stringify v = (case v of JUndefined \<Rightarrow> None | _ \<Rightarrow> Some ''null'')"

definition scripted :: "(nat \<Rightarrow> jsval) \<Rightarrow> Env" where
  "scripted answers =
     \<lparr>create = (\<lambda>n. Inr (answers n)), JSON_parse = example_parse,
      JSON_stringify = example_stringify, mcp_tools = JArr [],
      executeToolCalls = (\<lambda>n toolCalls. Inr [example_result])\<rparr>"

definition answers_tools :: "nat \<Rightarrow> jsval" where
  "answers_tools n = completion (JStr ''step'') (JArr [example_call])"

definition answers_tools_empty :: "nat \<Rightarrow> jsval" where
  "answers_tools_empty n = completion (JStr []) (JArr [example_call])"

definition answers_text :: "nat \<Rightarrow> jsval" where
  "answers_text n = completion (JStr ''Hello'') JUndefined"

definition answers_empty :: "nat \<Rightarrow> jsval" where
  "answers_empty n = completion (JStr []) JUndefined"

definition answers_late_tools :: "nat \<Rightarrow> jsval" where
  "answers_late_tools n =
     (if n = 1 then completion (JStr ''draft'') JUndefined
      else completion (JStr ''more'') (JArr [example_call]))"

definition multiline_thought :: string where
  "multiline_thought = ''<thought>a'' @ [CHR 0x0A] @ ''b</thought>Hello''"

definition answers_multiline :: "nat \<Rightarrow> jsval" where
  "answers_multiline n = completion (JStr multiline_thought) JUndefined"


definition example_user :: ChatMessage where
  "example_user = \<lparr>role = User, content = JStr ''Hi'', tool_calls = None, tool_call_id = None\<rparr>"

definition request_plain :: InferenceRequest where
  "request_plain =
     \<lparr>messages = 0, modelName = ''gpt-4o'', maxTokens = 200,
      endpoint = ''https://models.github.ai/inference'', token = ''t'',
      temperature = None, topP = None, responseFormat = None, customHeaders = None\<rparr>"

definition example_format :: ResponseFormat where
  "example_format = \<lparr>rf_type = ''json_schema'', json_schema = JObj []\<rparr>"

definition request_json :: InferenceRequest where
  "request_json = request_plain\<lparr>responseFormat := Some example_format\<rparr>"

definition world0 :: World where
  "world0 = \<lparr>heap = [[example_user]], sent = []\<rparr>"

section \<open>Properties of \<^verbatim>\<open>chatCompletion\<close>\<close>

declare mcpLoop.simps [simp del]

lemma chatCompletion_thrown: "chatCompletion env (Inl err) context = Inl err"
  by (simp add: chatCompletion_def)

lemma js_in_object: "js_in k v \<Longrightarrow> \<exists>ps. v = JObj ps"
  by (cases v) simp_all

lemma shape_test: "(\<not> js_truthy v \<or> js_typeof v \<noteq> ''object'' \<or> \<not> js_in ''choices'' v) = (\<not> js_in ''choices'' v)"
  by (cases v) simp_all

lemma chatCompletion_object:
  "js_in ''choices'' v \<Longrightarrow> chatCompletion env (Inr v) context = Inr v"
  by (cases v) (simp_all add: chatCompletion_def decode_def)

lemma chatCompletion_other:
  assumes "\<not> js_in ''choices'' v" "js_typeof v \<noteq> ''string''"
  shows "chatCompletion env (Inr v) context =
    Inl (Error (context @ '': Unexpected response shape (no choices). Preview: ''
                  @ shape_preview env v))"
  using assms by (cases v) (simp_all add: chatCompletion_def decode_def)

lemma chatCompletion_string:
  "chatCompletion env (Inr (JStr s)) context =
     (case JSON_parse env s of
        Inl m \<Rightarrow> Inl (Error (context @ '': Chat completion response was a string and not valid JSON (''
                             @ m @ ''). Preview: '' @ take 400 s))
      | Inr u \<Rightarrow> if js_in ''choices'' u then Inr u
          else Inl (Error (context @ '': Unexpected response shape (no choices). Preview: ''
                  @ shape_preview env u)))"
proof (cases "JSON_parse env s")
  case (Inl m)
  then show ?thesis by (simp add: chatCompletion_def decode_def)
next
  case (Inr u)
  then show ?thesis by (cases u) (simp_all add: chatCompletion_def decode_def)
qed

lemma well_formed_nonempty_in: "well_formed_nonempty v \<Longrightarrow> js_in ''choices'' v"
  by (cases v) (auto simp: well_formed_nonempty_def split: option.splits)

lemma chatCompletion_completion:
  "chatCompletion env (Inr (completion c tc)) context = Inr (completion c tc)"
  by (rule chatCompletion_object) (simp add: completion_def)

lemma first_message_completion:
  "first_message (completion c tc) = Inr (JObj [(''content'', c), (''tool_calls'', tc)])"
  by (simp add: completion_def first_message_def js_get_def js_index_def js_opt_get_def
      js_nullish_def)

lemma pass_response_completion:
  "create env n = Inr (completion c tc) \<Longrightarrow> pass_response env n = Inr (c, tc)"
  by (simp add: pass_response_def chatCompletion_completion first_message_completion
      js_opt_get_def js_nullish_def)

lemma pass_response_scripted:
  "answers n = completion c tc \<Longrightarrow> pass_response (scripted answers) n = Inr (c, tc)"
  by (rule pass_response_completion) (simp add: scripted_def)

section \<open>Properties of \<^verbatim>\<open>simpleInference\<close>\<close>




lemma simpleInference_completion:
  "create env 1 = Inr (completion c tc) \<Longrightarrow>
   fst (simpleInference env request w) = simple_result (completion c tc)"
  by (simp add: simpleInference_def Let_def chatCompletion_completion)

lemma simple_result_string:
  "first_message response = Inr message \<Longrightarrow> js_opt_get message ''content'' = JStr s \<Longrightarrow>
   s \<noteq> [] \<Longrightarrow>
   simple_result response =
     (case thought_match s of
        Some (m0, m1) \<Rightarrow> Inr (js_or (JStr (drop (length m0) s)) JNull)
      | None \<Rightarrow> Inr (JStr s))"
  by (simp add: simple_result_def js_or_def split: option.splits)




lemma simple_result_plan:
  "simple_result (completion (JStr ''<thought>plan</thought>Hello'') JUndefined)
     = Inr (JStr ''Hello'')"
  by (simp add: simple_result_def first_message_completion js_opt_get_def js_nullish_def
      thought_match_def is_white_space_def is_line_terminator_def js_or_def)

section \<open>One pass of the loop\<close>

lemma pass_tools:
  assumes "pass_response env n = Inr (c, tc)" "\<not> no_tool_calls tc"
    "executeToolCalls env n tc = Inr res"
  shows "pass env request a n fm w =
    (Continue, fm, push a res (push a [assistant_message c tc]
       (w\<lparr>sent := sent w @ [(fm, loop_params env request (heap w ! a) fm)]\<rparr>)))"
  using assms by (simp add: pass_def)

lemma pass_reformat:
  assumes "pass_response env n = Inr (c, tc)" "no_tool_calls tc"
    "responseFormat request = Some rf"
  shows "pass env request a n False w =
    (Continue, True, push a [reformat_message rf] (push a [assistant_message c tc]
       (w\<lparr>sent := sent w @ [(False, loop_params env request (heap w ! a) False)]\<rparr>)))"
  using assms by (simp add: pass_def)

lemma pass_return:
  assumes "pass_response env n = Inr (c, tc)" "no_tool_calls tc"
    "responseFormat request = None \<or> fm"
  shows "pass env request a n fm w =
    (Return (js_or c JNull), fm, push a [assistant_message c tc]
       (w\<lparr>sent := sent w @ [(fm, loop_params env request (heap w ! a) fm)]\<rparr>))"
  using assms by (auto simp add: pass_def Let_def split: option.splits)

lemma heap_push: "heap (push a ms w) = (heap w)[a := heap w ! a @ ms]"
  by (simp add: push_def)

lemma sent_push: "sent (push a ms w) = sent w"
  by (simp add: push_def)

lemma nth_push: "a < length (heap w) \<Longrightarrow> heap (push a ms w) ! a = heap w ! a @ ms"
  by (simp add: push_def)

lemma length_push: "length (heap (push a ms w)) = length (heap w)"
  by (simp add: push_def)

lemma update_twice:
  "l[a := (l[a := x]) ! a @ y] = l[a := x @ y]"
  by (cases "a < length l") (simp_all add: list_update_beyond)

lemma heap_pass:
  "\<exists>h. heap (snd (snd (pass env request a n fm w))) = (heap w)[a := heap w ! a @ h]"
  unfolding pass_def Let_def
  by (auto simp: heap_push update_twice split: sum.splits prod.splits option.splits
      intro: exI[of _ "[]"])

lemma loop_params_exclusive:
  "(fm \<longrightarrow> responseFormat request \<noteq> None) \<Longrightarrow>
   exclusive env request (fm, loop_params env request ms fm)"
  by (simp add: exclusive_def loop_params_def)

lemma sent_pass:
  "sent (snd (snd (pass env request a n fm w))) =
     sent w @ [(fm, loop_params env request (heap w ! a) fm)]"
  unfolding pass_def Let_def
  by (auto simp: sent_push split: sum.splits prod.splits option.splits)

lemma final_pass:
  "(fm \<longrightarrow> responseFormat request \<noteq> None) \<Longrightarrow>
   fst (snd (pass env request a n fm w)) \<longrightarrow> responseFormat request \<noteq> None"
  unfolding pass_def Let_def
  by (auto split: sum.splits prod.splits option.splits)


section \<open>The loop\<close>

lemma mcpLoop_step:
  "n < 5 \<Longrightarrow> mcpLoop env request a n fm w =
     (case pass env request a (Suc n) fm w of
        (Throw err, fm', w') \<Rightarrow> (Inl err, w')
      | (Return v, fm', w') \<Rightarrow> (Inr v, w')
      | (Continue, fm', w') \<Rightarrow> mcpLoop env request a (Suc n) fm' w')"
  by (subst mcpLoop.simps) (simp add: maxIterations_def split: prod.splits outcome.splits)

lemma mcpLoop_exhausted:
  "5 \<le> n \<Longrightarrow> mcpLoop env request a n fm w = (Inr (last_assistant_content (heap w ! a)), w)"
  by (subst mcpLoop.simps) (simp add: maxIterations_def)

text \<open>The loop changes the store at the address of its own array only, and only by appending.\<close>

lemma heap_mcpLoop:
  "\<exists>h. heap (snd (mcpLoop env request a n fm w)) = (heap w)[a := heap w ! a @ h]"
proof (induction env request a n fm w rule: mcpLoop.induct)
  case (1 env request a n fm w)
  show ?case
  proof (cases "n < maxIterations")
    case False
    then show ?thesis
      by (subst mcpLoop.simps) (auto intro: exI[of _ "[]"])
  next
    case True
    obtain out fm' w' where p: "pass env request a (n + 1) fm w = (out, fm', w')"
      by (cases "pass env request a (n + 1) fm w") auto
    from heap_pass[of env request a "n + 1" fm w] p
    obtain h where h: "heap w' = (heap w)[a := heap w ! a @ h]" by auto
    show ?thesis
    proof (cases out)
      case Continue
      from "1.IH"[OF True p[symmetric] Continue refl]
      obtain h' where "heap (snd (mcpLoop env request a (n + 1) fm' w')) = (heap w')[a := heap w' ! a @ h']"
        by auto
      then have "heap (snd (mcpLoop env request a (n + 1) fm' w')) = (heap w)[a := heap w ! a @ h @ h']"
        by (simp add: h update_twice)
      then show ?thesis
        using True p Continue by (subst mcpLoop.simps) auto
    next
      case (Return v)
      then show ?thesis using True p h by (subst mcpLoop.simps) auto
    next
      case (Throw e)
      then show ?thesis using True p h by (subst mcpLoop.simps) auto
    qed
  qed
qed

lemma heap_mcpInference:
  "\<exists>h. heap (snd (mcpInference env request w)) = heap w @ [heap w ! messages request @ h]"
proof -
  let ?w0 = "w\<lparr>heap := heap w @ [heap w ! messages request]\<rparr>"
  from heap_mcpLoop[of env request "length (heap w)" 0 False ?w0]
  obtain h where "heap (snd (mcpLoop env request (length (heap w)) 0 False ?w0))
      = (heap ?w0)[length (heap w) := heap ?w0 ! length (heap w) @ h]" by blast
  then show ?thesis by (auto simp: mcpInference_def)
qed

text \<open>Every call the loop logs keeps tools and response format apart.\<close>

lemma sent_mcpLoop:
  "(fm \<longrightarrow> responseFormat request \<noteq> None) \<Longrightarrow>
   \<exists>new. sent (snd (mcpLoop env request a n fm w)) = sent w @ new
     \<and> (\<forall>e\<in>set new. exclusive env request e)"
proof (induction env request a n fm w rule: mcpLoop.induct)
  case (1 env request a n fm w)
  show ?case
  proof (cases "n < maxIterations")
    case False
    then show ?thesis
      by (subst mcpLoop.simps) simp
  next
    case True
    obtain out fm' w' where p: "pass env request a (n + 1) fm w = (out, fm', w')"
      by (cases "pass env request a (n + 1) fm w") auto
    from sent_pass[of env request a "n + 1" fm w] p
    have s: "sent w' = sent w @ [(fm, loop_params env request (heap w ! a) fm)]" by simp
    have e: "exclusive env request (fm, loop_params env request (heap w ! a) fm)"
      using "1.prems" by (rule loop_params_exclusive)
    from final_pass[OF "1.prems", of env a "n + 1" w] p
    have f: "fm' \<longrightarrow> responseFormat request \<noteq> None" by simp
    show ?thesis
    proof (cases out)
      case Continue
      from "1.IH"[OF True p[symmetric] Continue refl f]
      obtain new where "sent (snd (mcpLoop env request a (n + 1) fm' w')) = sent w' @ new"
        and "\<forall>e\<in>set new. exclusive env request e"
        by auto
      then have "sent (snd (mcpLoop env request a (n + 1) fm' w'))
            = sent w @ ((fm, loop_params env request (heap w ! a) fm) # new)
          \<and> (\<forall>e\<in>set ((fm, loop_params env request (heap w ! a) fm) # new). exclusive env request e)"
        using s e by simp
      then show ?thesis
        using True p Continue by (subst mcpLoop.simps) (auto simp del: set_ConsD)
    next
      case (Return v)
      then show ?thesis using True p s e by (subst mcpLoop.simps) auto
    next
      case (Throw err)
      then show ?thesis using True p s e by (subst mcpLoop.simps) auto
    qed
  qed
qed

lemma sent_mcpInference:
  "\<exists>new. sent (snd (mcpInference env request w)) = sent w @ new
     \<and> (\<forall>e\<in>set new. exclusive env request e)"
  using sent_mcpLoop[of False request env "length (heap w)" 0
      "w\<lparr>heap := heap w @ [heap w ! messages request]\<rparr>"]
  by (simp add: mcpInference_def)




section \<open>Runs\<close>

lemma last_assistant_content_tail:
  assumes "role m = Assistant" "\<forall>x\<in>set res. role x \<noteq> Assistant"
  shows "last_assistant_content (xs @ m # res) = js_or (content m) JNull"
proof -
  have "find (\<lambda>msg. role msg = Assistant) (rev res @ m # rev xs) = Some m"
    using assms by (induction res rule: rev_induct) auto
  then show ?thesis by (simp add: last_assistant_content_def)
qed

lemma js_or_assistant: "js_or (content (assistant_message c tc)) JNull = js_or c JNull"
  by (simp add: assistant_message_def js_or_def)

lemma role_assistant: "role (assistant_message c tc) = Assistant"
  by (simp add: assistant_message_def)

text \<open>From pass \<open>n + 1\<close> on, every pass asks for tools: the loop runs to the cap.\<close>

lemma loop_all_tools:
  assumes "\<And>i. n < i \<Longrightarrow> i \<le> 5 \<Longrightarrow>
      pass_response env i = Inr (c i, tc i) \<and> \<not> no_tool_calls (tc i)
      \<and> executeToolCalls env i (tc i) = Inr (res i)"
    and "n \<le> 5" "a < length (heap w)"
  shows "\<exists>w'. mcpLoop env request a n fm w = (Inr (last_assistant_content (heap w' ! a)), w')
     \<and> length (sent w') = length (sent w) + (5 - n)
     \<and> (n < 5 \<longrightarrow> (\<exists>xs. heap w' ! a = xs @ assistant_message (c 5) (tc 5) # res 5))"
  using assms
proof (induction "5 - n" arbitrary: n w)
  case 0
  then have "n = 5" by simp
  then show ?case by (simp add: mcpLoop_exhausted)
next
  case (Suc k)
  then have n: "n < 5" by simp
  let ?w0 = "w\<lparr>sent := sent w @ [(fm, loop_params env request (heap w ! a) fm)]\<rparr>"
  let ?am = "assistant_message (c (Suc n)) (tc (Suc n))"
  let ?w1 = "push a (res (Suc n)) (push a [?am] ?w0)"
  have h: "pass_response env (Suc n) = Inr (c (Suc n), tc (Suc n))"
    "\<not> no_tool_calls (tc (Suc n))"
    "executeToolCalls env (Suc n) (tc (Suc n)) = Inr (res (Suc n))"
    using Suc.prems(1)[of "Suc n"] n by simp_all
  have step: "mcpLoop env request a n fm w = mcpLoop env request a (Suc n) fm ?w1"
    by (simp add: mcpLoop_step[OF n] pass_tools[OF h])
  have len: "a < length (heap ?w1)"
    using Suc.prems(3) by (simp add: length_push)
  have hp: "heap ?w1 ! a = (heap w ! a) @ ?am # res (Suc n)"
    using Suc.prems(3) by (simp add: nth_push length_push)
  have sn: "length (sent ?w1) = length (sent w) + 1"
    by (simp add: sent_push)
  have k: "k = 5 - Suc n" using Suc.hyps(2) by simp
  have rest: "\<And>i. Suc n < i \<Longrightarrow> i \<le> 5 \<Longrightarrow>
      pass_response env i = Inr (c i, tc i) \<and> \<not> no_tool_calls (tc i)
      \<and> executeToolCalls env i (tc i) = Inr (res i)"
    using Suc.prems(1) by simp
  from Suc.hyps(1)[OF k rest _ len] n
  obtain w' where w': "mcpLoop env request a (Suc n) fm ?w1
        = (Inr (last_assistant_content (heap w' ! a)), w')"
      "length (sent w') = length (sent ?w1) + (5 - Suc n)"
      "Suc n < 5 \<longrightarrow> (\<exists>xs. heap w' ! a = xs @ assistant_message (c 5) (tc 5) # res 5)"
    by auto
  show ?case
  proof (cases "Suc n = 5")
    case True
    then have "mcpLoop env request a (Suc n) fm ?w1
        = (Inr (last_assistant_content (heap ?w1 ! a)), ?w1)"
      by (simp add: mcpLoop_exhausted)
    with w'(1) have "w' = ?w1" by simp
    with hp True have "heap w' ! a = (heap w ! a) @ assistant_message (c 5) (tc 5) # res 5"
      by simp
    then have "\<exists>xs. heap w' ! a = xs @ assistant_message (c 5) (tc 5) # res 5" by blast
    with step w' sn n show ?thesis by auto
  next
    case False
    with n have "Suc n < 5" by simp
    with step w' sn n show ?thesis by auto
  qed
qed

lemma mcpInference_all_tools:
  assumes "\<And>i. 1 \<le> i \<Longrightarrow> i \<le> 5 \<Longrightarrow>
      pass_response env i = Inr (c i, tc i) \<and> \<not> no_tool_calls (tc i)
      \<and> executeToolCalls env i (tc i) = Inr (res i)"
    and "\<forall>m\<in>set (res 5). role m \<noteq> Assistant"
  shows "fst (mcpInference env request w) = Inr (js_or (c 5) JNull)
     \<and> fst (mcpInference env request w)
         = Inr (last_assistant_content (heap (snd (mcpInference env request w)) ! length (heap w)))
     \<and> length (sent (snd (mcpInference env request w))) = length (sent w) + 5"
proof -
  let ?w0 = "w\<lparr>heap := heap w @ [heap w ! messages request]\<rparr>"
  have "\<And>i. 0 < i \<Longrightarrow> i \<le> 5 \<Longrightarrow>
      pass_response env i = Inr (c i, tc i) \<and> \<not> no_tool_calls (tc i)
      \<and> executeToolCalls env i (tc i) = Inr (res i)"
    using assms(1) by simp
  from loop_all_tools[of 0 env c tc res "length (heap w)" ?w0 request False, OF this]
  obtain w' where w': "mcpLoop env request (length (heap w)) 0 False ?w0
        = (Inr (last_assistant_content (heap w' ! length (heap w))), w')"
      "length (sent w') = length (sent w) + 5"
      "\<exists>xs. heap w' ! length (heap w) = xs @ assistant_message (c 5) (tc 5) # res 5"
    by auto
  from w'(3) obtain xs where "heap w' ! length (heap w) = xs @ assistant_message (c 5) (tc 5) # res 5"
    by blast
  then have "last_assistant_content (heap w' ! length (heap w)) = js_or (c 5) JNull"
    using assms(2) by (simp add: last_assistant_content_tail role_assistant js_or_assistant)
  with w' show ?thesis by (simp add: mcpInference_def)
qed

lemma mcpInference_done:
  assumes "responseFormat request = None"
    and "pass_response env 1 = Inr (c, tc)" "no_tool_calls tc"
  shows "mcpInference env request w =
    (Inr (js_or c JNull),
     w\<lparr>heap := heap w @ [heap w ! messages request @ [assistant_message c tc]],
       sent := sent w @ [(False, loop_params env request (heap w ! messages request) False)]\<rparr>)"
proof -
  have p: "pass_response env (Suc 0) = Inr (c, tc)" using assms(2) by simp
  show ?thesis
    using assms(1)
    by (simp add: mcpInference_def mcpLoop_step pass_return[OF p assms(3)] push_def)
qed

lemma mcpInference_reformat:
  assumes "responseFormat request = Some rf"
    and "pass_response env 1 = Inr (c1, tc1)" "no_tool_calls tc1"
    and "pass_response env 2 = Inr (c2, tc2)" "no_tool_calls tc2"
  shows "mcpInference env request w =
    (Inr (js_or c2 JNull),
     w\<lparr>heap := heap w @ [heap w ! messages request
          @ [assistant_message c1 tc1, reformat_message rf, assistant_message c2 tc2]],
       sent := sent w @
         [(False, loop_params env request (heap w ! messages request) False),
          (True, loop_params env request
             (heap w ! messages request @ [assistant_message c1 tc1, reformat_message rf]) True)]\<rparr>)"
proof -
  have p1: "pass_response env (Suc 0) = Inr (c1, tc1)" using assms(2) by simp
  have p2: "pass_response env (Suc (Suc 0)) = Inr (c2, tc2)"
    using assms(4) by (simp add: numeral_2_eq_2)
  show ?thesis
    using assms(1)
    by (simp add: mcpInference_def mcpLoop_step pass_reformat[OF p1 assms(3)]
        pass_return[OF p2 assms(5)] push_def)
qed

text \<open>
  A tool-free first pass with a declared format, then tool calls on every later pass:
  the loop does not stop at the second pass.
\<close>

lemma mcpInference_reformat_tools:
  assumes "responseFormat request = Some rf"
    and "pass_response env 1 = Inr (c1, tc1)" "no_tool_calls tc1"
    and "\<And>i. 1 < i \<Longrightarrow> i \<le> 5 \<Longrightarrow>
      pass_response env i = Inr (c i, tc i) \<and> \<not> no_tool_calls (tc i)
      \<and> executeToolCalls env i (tc i) = Inr (res i)"
  shows "length (sent (snd (mcpInference env request w))) = length (sent w) + 5"
proof -
  let ?a = "length (heap w)"
  let ?w0 = "w\<lparr>heap := heap w @ [heap w ! messages request]\<rparr>"
  let ?w1 = "push ?a [reformat_message rf] (push ?a [assistant_message c1 tc1]
       (?w0\<lparr>sent := sent ?w0 @ [(False, loop_params env request (heap ?w0 ! ?a) False)]\<rparr>))"
  have p1: "pass_response env (Suc 0) = Inr (c1, tc1)" using assms(2) by simp
  have step: "mcpInference env request w = mcpLoop env request ?a 1 True ?w1"
    by (simp add: mcpInference_def mcpLoop_step pass_reformat[OF p1 assms(3) assms(1)])
  have len: "?a < length (heap ?w1)" by (simp add: length_push)
  from loop_all_tools[of 1 env c tc res ?a ?w1 request True, OF assms(4) _ len]
  obtain w' where "mcpLoop env request ?a 1 True ?w1
        = (Inr (last_assistant_content (heap w' ! ?a)), w')"
      "length (sent w') = length (sent ?w1) + (5 - 1)"
    by auto
  then show ?thesis by (simp add: step sent_push)
qed






lemma example_tools:
  "\<not> no_tool_calls (JArr [example_call])" "executeToolCalls (scripted answers) i tc = Inr [example_result]"
  "\<forall>m\<in>set [example_result]. role m = Tool"
  by (simp_all add: no_tool_calls_def scripted_def example_result_def)

lemma example_no_tools: "no_tool_calls JUndefined"
  by (simp add: no_tool_calls_def)

section \<open>The claims\<close>

text \<open>
  C1, as amended. For every value the transport returns, \<^verbatim>\<open>chatCompletion\<close> fails, with
  an \<^verbatim>\<open>Error\<close>, exactly when the value is neither an object with a \<^verbatim>\<open>choices\<close> key nor
  a string that parses into such an object. Only the presence of the key is tested: an
  object whose \<^verbatim>\<open>choices\<close> list is empty is accepted.
\<close>

theorem C1_fails_iff_no_choices_key:
  "(\<exists>msg. chatCompletion env (Inr v) context = Inl (Error msg)) =
     (\<not> (js_in ''choices'' v \<or>
         (\<exists>s u. v = JStr s \<and> JSON_parse env s = Inr u \<and> js_in ''choices'' u)))
   \<and> chatCompletion env (Inr v) context \<noteq> Inl TypeError"
proof (cases "\<exists>s. v = JStr s")
  case True
  then obtain s where v: "v = JStr s" by blast
  show ?thesis
    by (cases "JSON_parse env s") (simp_all add: v chatCompletion_string)
next
  case False
  then have ns: "js_typeof v \<noteq> ''string''" by (cases v) simp_all
  show ?thesis
  proof (cases "js_in ''choices'' v")
    case True
    then show ?thesis by (simp add: chatCompletion_object)
  next
    case no: False
    from chatCompletion_other[OF no ns] False no show ?thesis by simp
  qed
qed

theorem C1_witness:
  "(\<exists>msg. chatCompletion (scripted answers_text) (Inr (JArr [])) ''simpleInference''
       = Inl (Error msg))
   \<and> \<not> (\<exists>msg. chatCompletion (scripted answers_text) (Inr (JStr choices_text)) ''simpleInference''
       = Inl (Error msg))"
  using C1_fails_iff_no_choices_key[of "scripted answers_text" "JArr []" "''simpleInference''"]
    C1_fails_iff_no_choices_key[of "scripted answers_text" "JStr choices_text" "''simpleInference''"]
  by (simp add: scripted_def example_parse_def)

text \<open>
  C1, as stated, fails: the object \<^verbatim>\<open>{choices: []}\<close> is none of the values the
  specification accepts, and \<^verbatim>\<open>chatCompletion\<close> returns it.
\<close>

theorem C1_counterexample:
  "chatCompletion (scripted answers_text) (Inr (JObj [(''choices'', JArr [])])) ''simpleInference''
     = Inr (JObj [(''choices'', JArr [])])
   \<and> \<not> spec_accepts (scripted answers_text) (JObj [(''choices'', JArr [])])"
  by (simp add: chatCompletion_object spec_accepts_def well_formed_nonempty_def)

text \<open>
  C2, as amended. In a run where each of the five passes gets a response that asks for
  at least one tool call, and the tool executor returns tool messages, the loop makes
  five calls and returns without an error. The value is the content of the most recent
  assistant message of the history, which is the fifth pass's: that content when it is
  not empty, and \<^verbatim>\<open>null\<close> when it is empty or missing.
\<close>

theorem C2_cap_exhaustion:
  assumes "\<And>i. 1 \<le> i \<Longrightarrow> i \<le> 5 \<Longrightarrow>
      pass_response env i = Inr (c i, tc i) \<and> \<not> no_tool_calls (tc i)
      \<and> executeToolCalls env i (tc i) = Inr (res i) \<and> (\<forall>m\<in>set (res i). role m = Tool)"
  shows "fst (mcpInference env request w) = Inr (if js_truthy (c 5) then c 5 else JNull)
     \<and> fst (mcpInference env request w)
         = Inr (last_assistant_content (heap (snd (mcpInference env request w)) ! length (heap w)))
     \<and> length (sent (snd (mcpInference env request w))) = length (sent w) + 5"
proof -
  have tools: "\<And>i. 1 \<le> i \<Longrightarrow> i \<le> 5 \<Longrightarrow>
      pass_response env i = Inr (c i, tc i) \<and> \<not> no_tool_calls (tc i)
      \<and> executeToolCalls env i (tc i) = Inr (res i)"
    using assms by blast
  have "\<forall>m\<in>set (res 5). role m = Tool" using assms[of 5] by simp
  then have roles: "\<forall>m\<in>set (res 5). role m \<noteq> Assistant" by simp
  from mcpInference_all_tools[of env c tc res, OF tools roles, of request w]
  show ?thesis unfolding js_or_def by blast
qed

theorem C2_witness:
  "fst (mcpInference (scripted answers_tools) request_plain world0) = Inr (JStr ''step'')
   \<and> length (sent (snd (mcpInference (scripted answers_tools) request_plain world0))) = 5"
proof -
  have "\<And>i. pass_response (scripted answers_tools) i = Inr (JStr ''step'', JArr [example_call])"
    by (rule pass_response_scripted) (simp add: answers_tools_def)
  then show ?thesis
    using C2_cap_exhaustion[of "scripted answers_tools" "\<lambda>i. JStr ''step''"
        "\<lambda>i. JArr [example_call]" "\<lambda>i. [example_result]" request_plain world0]
    by (simp add: example_tools world0_def)
qed

text \<open>
  C2, as stated, fails: when the fifth pass's content is the empty string, the most
  recent assistant message has the empty string as content, and the value returned is
  \<^verbatim>\<open>null\<close>.
\<close>

theorem C2_counterexample:
  "pass_response (scripted answers_tools_empty) 5 = Inr (JStr [], JArr [example_call])
   \<and> content (assistant_message (JStr []) (JArr [example_call])) = JStr []
   \<and> fst (mcpInference (scripted answers_tools_empty) request_plain world0) = Inr JNull"
proof -
  have p: "\<And>i. pass_response (scripted answers_tools_empty) i = Inr (JStr [], JArr [example_call])"
    by (rule pass_response_scripted) (simp add: answers_tools_empty_def)
  have "fst (mcpInference (scripted answers_tools_empty) request_plain world0)
      = Inr (js_or (JStr []) JNull)"
    using mcpInference_all_tools[of "scripted answers_tools_empty" "\<lambda>i. JStr []"
        "\<lambda>i. JArr [example_call]" "\<lambda>i. [example_result]" request_plain world0]
    by (simp add: p example_tools)
  then show ?thesis by (simp add: p js_or_def assistant_message_def)
qed

text \<open>
  C3, as amended. In a run with a declared response format whose first pass returns no
  tool calls and whose second pass returns none either, the loop appends one
  reformatting user message to the history, makes one further call, with the response
  format attached and no tools, and returns the second pass's content when it is not
  empty, and \<^verbatim>\<open>null\<close> when it is empty or missing.
\<close>

theorem C3_forced_reformat:
  assumes "responseFormat request = Some rf"
    and "pass_response env 1 = Inr (c1, tc1)" "no_tool_calls tc1"
    and "pass_response env 2 = Inr (c2, tc2)" "no_tool_calls tc2"
  shows "fst (mcpInference env request w) = Inr (if js_truthy c2 then c2 else JNull)
     \<and> heap (snd (mcpInference env request w)) = heap w @ [heap w ! messages request
          @ [assistant_message c1 tc1, reformat_message rf, assistant_message c2 tc2]]
     \<and> sent (snd (mcpInference env request w)) = sent w @
         [(False, loop_params env request (heap w ! messages request) False),
          (True, loop_params env request
             (heap w ! messages request @ [assistant_message c1 tc1, reformat_message rf]) True)]
     \<and> tools (loop_params env request
             (heap w ! messages request @ [assistant_message c1 tc1, reformat_message rf]) True) = None
     \<and> response_format (loop_params env request
             (heap w ! messages request @ [assistant_message c1 tc1, reformat_message rf]) True) = Some rf
     \<and> role (reformat_message rf) = User"
  using assms(1)
  by (simp add: mcpInference_reformat[OF assms] js_or_def loop_params_def reformat_message_def)

theorem C3_witness:
  "fst (mcpInference (scripted answers_text) request_json world0) = Inr (JStr ''Hello'')
   \<and> length (sent (snd (mcpInference (scripted answers_text) request_json world0))) = 2"
proof -
  have "\<And>i. pass_response (scripted answers_text) i = Inr (JStr ''Hello'', JUndefined)"
    by (rule pass_response_scripted) (simp add: answers_text_def)
  then show ?thesis
    using C3_forced_reformat[of request_json example_format "scripted answers_text"
        "JStr ''Hello''" JUndefined "JStr ''Hello''" JUndefined world0]
    by (simp add: example_no_tools request_json_def world0_def)
qed

text \<open>
  C3, as stated, fails twice. When the second pass returns tool calls the loop goes on
  after it (here to the cap: five calls); and when the second pass's content is the
  empty string the value returned is \<^verbatim>\<open>null\<close>.
\<close>

theorem C3_counterexample:
  "pass_response (scripted answers_late_tools) 1 = Inr (JStr ''draft'', JUndefined)
   \<and> length (sent (snd (mcpInference (scripted answers_late_tools) request_json world0))) = 5
   \<and> pass_response (scripted answers_empty) 2 = Inr (JStr [], JUndefined)
   \<and> fst (mcpInference (scripted answers_empty) request_json world0) = Inr JNull"
proof -
  have f: "responseFormat request_json = Some example_format"
    by (simp add: request_json_def)
  have p1: "pass_response (scripted answers_late_tools) 1 = Inr (JStr ''draft'', JUndefined)"
    by (rule pass_response_scripted) (simp add: answers_late_tools_def)
  have pi: "\<And>i. 1 < i \<Longrightarrow>
      pass_response (scripted answers_late_tools) i = Inr (JStr ''more'', JArr [example_call])"
    by (rule pass_response_scripted) (simp add: answers_late_tools_def)
  have five: "length (sent (snd (mcpInference (scripted answers_late_tools) request_json world0)))
      = length (sent world0) + 5"
    by (rule mcpInference_reformat_tools[OF f p1 example_no_tools,
          of "\<lambda>i. JStr ''more''" "\<lambda>i. JArr [example_call]" "\<lambda>i. [example_result]"])
       (simp add: pi example_tools)
  have e: "\<And>i. pass_response (scripted answers_empty) i = Inr (JStr [], JUndefined)"
    by (rule pass_response_scripted) (simp add: answers_empty_def)
  have "fst (mcpInference (scripted answers_empty) request_json world0)
      = Inr (js_or (JStr []) JNull)"
    by (simp add: mcpInference_reformat[OF f e example_no_tools e example_no_tools])
  with p1 five e show ?thesis by (simp add: js_or_def world0_def)
qed

text \<open>
  C4. Every call the tool-augmented loop makes to the endpoint carries either the tool
  definitions or the declared response format, never both and never neither: the tools
  exactly when the pass is not the finalizing pass, the response format exactly when it
  is.
\<close>

theorem C4_tools_xor_format:
  assumes "(fm, p) \<in> set (drop (length (sent w)) (sent (snd (mcpInference env request w))))"
  shows "(tools p = None) = fm \<and> (response_format p = None) = (\<not> fm)
     \<and> (\<not> fm \<longrightarrow> tools p = Some (mcp_tools env))
     \<and> (fm \<longrightarrow> response_format p = responseFormat request)"
proof -
  from sent_mcpInference[of env request w]
  obtain new where "sent (snd (mcpInference env request w)) = sent w @ new"
    and all: "\<forall>e\<in>set new. exclusive env request e"
    by blast
  with assms have "(fm, p) \<in> set new" by simp
  with all have "exclusive env request (fm, p)" by blast
  then show ?thesis by (auto simp: exclusive_def)
qed

theorem C4_witness:
  "tools (loop_params (scripted answers_text) request_json
      ([example_user] @ [assistant_message (JStr ''Hello'') JUndefined,
          reformat_message example_format]) True) = None
   \<and> response_format (loop_params (scripted answers_text) request_json
      ([example_user] @ [assistant_message (JStr ''Hello'') JUndefined,
          reformat_message example_format]) True) = Some example_format"
proof -
  have f: "responseFormat request_json = Some example_format"
    by (simp add: request_json_def)
  have p: "\<And>i. pass_response (scripted answers_text) i = Inr (JStr ''Hello'', JUndefined)"
    by (rule pass_response_scripted) (simp add: answers_text_def)
  have m: "heap world0 ! messages request_json = [example_user]" "sent world0 = []"
    by (simp_all add: world0_def request_json_def request_plain_def)
  have "sent (snd (mcpInference (scripted answers_text) request_json world0)) = sent world0 @
     [(False, loop_params (scripted answers_text) request_json
          (heap world0 ! messages request_json) False),
      (True, loop_params (scripted answers_text) request_json
          (heap world0 ! messages request_json @ [assistant_message (JStr ''Hello'') JUndefined,
              reformat_message example_format]) True)]"
    by (simp add: mcpInference_reformat[OF f p example_no_tools p example_no_tools])
  then have "(True, loop_params (scripted answers_text) request_json
      ([example_user] @ [assistant_message (JStr ''Hello'') JUndefined,
          reformat_message example_format]) True)
    \<in> set (drop (length (sent world0))
        (sent (snd (mcpInference (scripted answers_text) request_json world0))))"
    unfolding m by simp
  from C4_tools_xor_format[OF this] f show ?thesis by simp
qed

text \<open>
  C5, as amended. In a run where the first pass returns no tool calls and the request
  declares no response format, the loop makes exactly one call, appends that pass's
  assistant message to its history, and returns that pass's content when it is not
  empty, and \<^verbatim>\<open>null\<close> when it is empty or missing.
\<close>

theorem C5_no_tools_no_format:
  assumes "responseFormat request = None"
    and "pass_response env 1 = Inr (modelResponse, toolCalls)" "no_tool_calls toolCalls"
  shows "fst (mcpInference env request w)
        = Inr (if js_truthy modelResponse then modelResponse else JNull)
     \<and> sent (snd (mcpInference env request w))
        = sent w @ [(False, loop_params env request (heap w ! messages request) False)]
     \<and> heap (snd (mcpInference env request w))
        = heap w @ [heap w ! messages request @ [assistant_message modelResponse toolCalls]]"
  by (simp add: mcpInference_done[OF assms] js_or_def)

theorem C5_witness:
  "fst (mcpInference (scripted answers_text) request_plain world0) = Inr (JStr ''Hello'')
   \<and> length (sent (snd (mcpInference (scripted answers_text) request_plain world0))) = 1"
proof -
  have "pass_response (scripted answers_text) 1 = Inr (JStr ''Hello'', JUndefined)"
    by (rule pass_response_scripted) (simp add: answers_text_def)
  then show ?thesis
    using C5_no_tools_no_format[of request_plain "scripted answers_text" "JStr ''Hello''"
        JUndefined world0]
    by (simp add: example_no_tools request_plain_def world0_def)
qed

text \<open>
  C5, as stated, fails: when the content of the only pass is the empty string, the value
  returned is \<^verbatim>\<open>null\<close>, not that content.
\<close>

theorem C5_counterexample:
  "responseFormat request_plain = None
   \<and> pass_response (scripted answers_empty) 1 = Inr (JStr [], JUndefined)
   \<and> no_tool_calls JUndefined
   \<and> fst (mcpInference (scripted answers_empty) request_plain world0) = Inr JNull"
proof -
  have f: "responseFormat request_plain = None" by (simp add: request_plain_def)
  have e: "pass_response (scripted answers_empty) 1 = Inr (JStr [], JUndefined)"
    by (rule pass_response_scripted) (simp add: answers_empty_def)
  have "fst (mcpInference (scripted answers_empty) request_plain world0)
      = Inr (js_or (JStr []) JNull)"
    by (simp add: mcpInference_done[OF f e example_no_tools])
  then have "fst (mcpInference (scripted answers_empty) request_plain world0) = Inr JNull"
    by (simp add: js_or_def)
  with f e example_no_tools show ?thesis by blast
qed

text \<open>
  C6. When the transport returns a string that \<^verbatim>\<open>JSON.parse\<close> rejects,
  \<^verbatim>\<open>chatCompletion\<close> throws an \<^verbatim>\<open>Error\<close> whose message holds the message of the
  decode error and, as preview, the first 400 code units of the string (the whole string
  when it is shorter).
\<close>

theorem C6_decode_failure_preview:
  assumes "JSON_parse env s = Inl m"
  shows "chatCompletion env (Inr (JStr s)) context =
      Inl (Error (context @ '': Chat completion response was a string and not valid JSON (''
                    @ m @ ''). Preview: '' @ take 400 s))
     \<and> length (take 400 s) = min 400 (length s)"
  using assms by (simp add: chatCompletion_string min.commute)

theorem C6_witness:
  "chatCompletion (scripted answers_text) (Inr (JStr (replicate 2000 CHR ''x''))) ''simpleInference''
     = Inl (Error (''simpleInference: Chat completion response was a string and not valid JSON (''
                    @ ''Unexpected token'' @ ''). Preview: '' @ replicate 400 CHR ''x''))"
proof -
  have "length (replicate 2000 CHR ''x'') \<noteq> length choices_text"
    by (simp add: choices_text_def)
  then have "replicate 2000 CHR ''x'' \<noteq> choices_text" by metis
  then have "JSON_parse (scripted answers_text) (replicate 2000 CHR ''x'') = Inl ''Unexpected token''"
    by (simp add: scripted_def example_parse_def)
  from C6_decode_failure_preview[OF this, of "''simpleInference''"] show ?thesis by simp
qed

text \<open>
  C7 says that every content that begins with a \<^verbatim>\<open><thought>...</thought>\<close> wrapper is
  returned without it. The code does not do so when the thought text holds a line break:
  for the content \<^verbatim>\<open><thought>a\nb</thought>Hello\<close> the regular expression does not
  match, and \<^verbatim>\<open>simpleInference\<close> returns the whole content, thought text included.
\<close>

theorem C7_multiline_thought_kept:
  "fst (simpleInference (scripted answers_multiline) request_plain world0)
     = Inr (JStr multiline_thought)"
proof -
  have c: "create (scripted answers_multiline) 1 = Inr (completion (JStr multiline_thought) JUndefined)"
    by (simp add: scripted_def answers_multiline_def)
  have m: "thought_match multiline_thought = None"
    by (simp add: thought_match_def multiline_thought_def is_white_space_def
        is_line_terminator_def)
  have "simple_result (completion (JStr multiline_thought) JUndefined) = Inr (JStr multiline_thought)"
  proof -
    have k: "js_opt_get (JObj [(''content'', JStr multiline_thought), (''tool_calls'', JUndefined)])
        ''content'' = JStr multiline_thought"
      by (simp add: js_opt_get_def js_nullish_def)
    have ne: "multiline_thought \<noteq> []" by (simp add: multiline_thought_def)
    from simple_result_string[OF first_message_completion k ne] show ?thesis
      unfolding m by simp
  qed
  with simpleInference_completion[OF c] show ?thesis by simp
qed

theorem C7_witness:
  "fst (simpleInference (scripted answers_multiline) request_plain world0) \<noteq> Inr (JStr ''Hello'')"
  using C7_multiline_thought_kept by (simp add: multiline_thought_def)

text \<open>
  C8. A value that is already a well-formed object with a non-empty \<^verbatim>\<open>choices\<close> array
  is returned by \<^verbatim>\<open>chatCompletion\<close> as it is.
\<close>

theorem C8_well_formed_unchanged:
  assumes "well_formed_nonempty v"
  shows "chatCompletion env (Inr v) context = Inr v"
  using assms by (simp add: chatCompletion_object well_formed_nonempty_in)

theorem C8_witness:
  "chatCompletion (scripted answers_text) (Inr (completion (JStr ''Hello'') JUndefined))
      ''simpleInference''
     = Inr (completion (JStr ''Hello'') JUndefined)"
  using C8_well_formed_unchanged[of "completion (JStr ''Hello'') JUndefined"
      "scripted answers_text" "''simpleInference''"]
  by (simp add: well_formed_nonempty_def completion_def)

text \<open>
  C9. \<^verbatim>\<open>mcpInference\<close> does not change the message array of its request: whatever the
  run does and however it ends, the array at the request's address holds after the call
  what it held before. The loop allocates one new array, a copy of the request's, and
  only appends to it; every array of the store that existed before is unchanged.
\<close>

theorem C9_request_not_mutated:
  assumes "messages request < length (heap w)"
  shows "heap (snd (mcpInference env request w)) ! messages request = heap w ! messages request
     \<and> (\<exists>h. heap (snd (mcpInference env request w)) = heap w @ [heap w ! messages request @ h])"
proof -
  from heap_mcpInference[of env request w]
  obtain h where h: "heap (snd (mcpInference env request w))
      = heap w @ [heap w ! messages request @ h]"
    by blast
  with assms show ?thesis by (simp add: nth_append)
qed

theorem C9_witness:
  "heap (snd (mcpInference (scripted answers_tools) request_plain world0)) ! 0 = [example_user]"
  using C9_request_not_mutated[of request_plain world0 "scripted answers_tools"]
  by (simp add: request_plain_def world0_def)



end
